theory Spec2Isabelle
  imports Complex_Main
begin

section \<open>Values of the script\<close>

text \<open>
  app.py is one linear Streamlit script. Everything it does goes through three libraries
  (the detector, the video reader/writer, the page), so the embedding keeps the script's
  control flow as it is written and records each library call in a state record.

  Python floats are modelled by rationals: the finite floats are rationals, and the script
  only compares them with zero, truncates them with \<open>int()\<close>, and takes one quotient of two
  integers. NaN and the infinities are left out. The one product of floats, line 128, is
  numpy's: it rounds to the dtype of the array, and is taken from the environment.
\<close>

type_synonym pyfloat = rat

text \<open>\<open>int(x)\<close> of a float truncates towards zero.\<close>

definition py_int :: "pyfloat \<Rightarrow> int" where
  "py_int x = (if 0 \<le> x then \<lfloor>x\<rfloor> else \<lceil>x\<rceil>)"

text \<open>\<open>x or d\<close> for a float \<open>x\<close>: the float is falsy exactly when it is zero.\<close>

definition py_or :: "pyfloat \<Rightarrow> pyfloat \<Rightarrow> pyfloat" where
  "py_or x d = (if x = 0 then d else x)"

text \<open>
  Exceptions. \<open>LibError msg\<close> is an exception raised inside a library call (the detector,
  cv2), with \<open>str(e) = msg\<close>; the other two are the ones the script's own expressions could
  raise: an attribute read on \<open>None\<close> and \<open>i / frame_count\<close> with a zero divisor.
\<close>

datatype exn = AttributeError | ZeroDivisionError | LibError string

definition py_truediv :: "int \<Rightarrow> int \<Rightarrow> exn + pyfloat" where
  "py_truediv a b = (if b = 0 then Inl ZeroDivisionError else Inr (of_int a / of_int b))"

subsection \<open>Frames\<close>

text \<open>
  A frame is a numpy array of shape (rows, cols, 3) with a dtype. Only \<open>uint8\<close> and the
  float dtypes are modelled (the arithmetic of other integer dtypes wraps and is left out).
\<close>

datatype dtype = UInt8 | Float32 | Float64

type_synonym pixel = "pyfloat \<times> pyfloat \<times> pyfloat"

record frame =
  dtype :: dtype
  rows :: nat
  cols :: nat
  pixels :: "pixel list"

definition map_channels :: "(pyfloat \<Rightarrow> pyfloat) \<Rightarrow> pixel \<Rightarrow> pixel" where
  "map_channels g p = (case p of (c0, c1, c2) \<Rightarrow> (g c0, g c1, g c2))"

text \<open>\<open>np.clip(a, lo, hi)\<close> is \<open>minimum(maximum(a, lo), hi)\<close>, element by element.\<close>

definition np_clip :: "pyfloat \<Rightarrow> pyfloat \<Rightarrow> pyfloat \<Rightarrow> pyfloat" where
  "np_clip v lo hi = min (max v lo) hi"

text \<open>\<open>.astype(np.uint8)\<close> of a float: truncation, then the low eight bits.\<close>

definition astype_uint8 :: "pyfloat \<Rightarrow> pyfloat" where
  "astype_uint8 v = of_int (py_int v mod 256)"

text \<open>\<open>cv2.cvtColor(a, cv2.COLOR_RGB2BGR)\<close> exchanges channels 0 and 2 of every pixel.\<close>

definition cvtColor_RGB2BGR :: "frame \<Rightarrow> frame" where
  "cvtColor_RGB2BGR a = a\<lparr>pixels := map (\<lambda>(c0, c1, c2). (c2, c1, c0)) (pixels a)\<rparr>"

subsection \<open>The detector\<close>

text \<open>
  \<open>box.cls[0].item()\<close> is a float; \<open>results[0].plot()\<close> is an array or \<open>None\<close>;
  \<open>model.predict\<close> may raise.
\<close>

record box =
  cls :: pyfloat

record results =
  plot :: "frame option"
  boxes :: "box list"

type_synonym model = "frame \<Rightarrow> string + results"

definition MODEL_PATH :: string where
  "MODEL_PATH = ''my_model.pt''"

definition class_map :: "int \<Rightarrow> string option" where
  "class_map = map_of [(0, ''Forehand''), (1, ''Backhand''), (2, ''Serve'')]"

subsection \<open>The environment of one run\<close>

datatype cap_prop =
  CAP_PROP_FRAME_COUNT | CAP_PROP_FRAME_WIDTH | CAP_PROP_FRAME_HEIGHT | CAP_PROP_FPS

record uploaded =
  name :: string
  content :: string

text \<open>
  What the libraries and the user answer during a run:
  \<^item> \<open>YOLO path\<close>: the model, or \<open>Inl (str e)\<close> when loading raises;
  \<^item> \<open>uploaded_file\<close>: what \<open>st.file_uploader\<close> returns;
  \<^item> \<open>isOpened\<close>, \<open>cap_get\<close>: the capture's answers; \<open>stream\<close>: the frames that
    \<open>cap.read()\<close> hands out with \<open>ret\<close> true, in order, before the first read with
    \<open>ret\<close> false (the end of the file or a failed read: the script cannot tell them apart);
  \<^item> \<open>interp\<close>: the pixels \<open>cv2.resize\<close> computes for a frame and a target size;
  \<^item> \<open>np_multiply dt x y\<close>: the product \<open>x * y\<close> as numpy computes it in the float dtype
    \<open>dt\<close>, that is, the exact product rounded to a value of that dtype;
  \<^item> \<open>tempdir\<close>, \<open>uuid_hex\<close>: \<open>tempfile.gettempdir()\<close> and \<open>uuid.uuid4().hex\<close>;
  \<^item> \<open>out_file\<close>: the bytes at \<open>out_path\<close> when the run ends (which is when lines 161-165
    look, in a run that gets there), \<open>None\<close> when there is no such file.
\<close>

record env =
  YOLO :: "string \<Rightarrow> string + model"
  uploaded_file :: "uploaded option"
  isOpened :: bool
  cap_get :: "cap_prop \<Rightarrow> pyfloat"
  stream :: "frame list"
  interp :: "frame \<Rightarrow> nat \<Rightarrow> nat \<Rightarrow> pixel list"
  np_multiply :: "dtype \<Rightarrow> pyfloat \<Rightarrow> pyfloat \<Rightarrow> pyfloat"
  tempdir :: string
  uuid_hex :: string
  out_file :: "string option"

text \<open>
  \<open>cv2.resize(a, (w, h))\<close>: the result has \<open>h\<close> rows and \<open>w\<close> columns and the dtype of
  \<open>a\<close>; an empty target size is refused with an error.
\<close>

definition cv2_resize :: "env \<Rightarrow> frame \<Rightarrow> int \<times> int \<Rightarrow> exn + frame" where
  "cv2_resize e a dsize =
     (case dsize of (w, h) \<Rightarrow>
        if w \<le> 0 \<or> h \<le> 0 then Inl (LibError ''cv2.error'')
        else Inr (a\<lparr>rows := nat h, cols := nat w, pixels := interp e a (nat w) (nat h)\<rparr>))"

text \<open>
  Line 128: \<open>(255 * np.clip(annotated, 0, 1)).astype(np.uint8)\<close>. The clipping is exact,
  the product is numpy's product in the dtype of the array, the cast truncates.
\<close>

definition clip_scale :: "env \<Rightarrow> frame \<Rightarrow> frame" where
  "clip_scale e a =
     a\<lparr>dtype := UInt8,
       pixels := map (map_channels
                        (\<lambda>v. astype_uint8 (np_multiply e (dtype a) 255 (np_clip v 0 1))))
                   (pixels a)\<rparr>"

section \<open>The state of a run\<close>

datatype outcome = Running | Completed | Stopped | Raised exn

datatype message = Error string | Info string

record video_writer =
  vw_path :: string
  vw_fourcc :: string
  vw_fps :: pyfloat
  vw_size :: "int \<times> int"

record download =
  dl_data :: string
  dl_file_name :: string
  dl_mime :: string

text \<open>
  The state holds the script's variables (\<open>shot_counter\<close>, \<open>i\<close>) and a log of every
  library call the properties speak about. \<open>detections\<close> logs the class ids the loop of line
  120 has read; no code reads it. A \<open>Counter\<close> is a dict and keeps its keys in insertion
  order, so it is an association list. \<open>progress_bar\<close> lists the values passed to the
  bar, the initial 0 first; a status text \<open>Processed frame i/frame_count\<close> is kept as the
  pair \<open>(i, frame_count)\<close>; \<open>written\<close> lists the frames passed to \<open>writer.write\<close>.
\<close>

record world =
  outcome :: outcome
  messages :: "message list"
  cap_created :: bool
  cap_released :: bool
  writer :: "video_writer option"
  writer_released :: bool
  written :: "frame list"
  shot_counter :: "(string \<times> int) list"
  detections :: "int list"
  i_counter :: int
  progress_bar :: "pyfloat list"
  status_text :: "(int \<times> int) list"
  results_panel :: "(string \<times> int) list option"
  download_button :: "download option"

definition world0 :: world where
  "world0 = \<lparr>outcome = Running, messages = [], cap_created = False, cap_released = False,
     writer = None, writer_released = False, written = [], shot_counter = [],
     detections = [], i_counter = 0, progress_bar = [], status_text = [],
     results_panel = None, download_button = None\<rparr>"

text \<open>\<open>st.stop()\<close> ends the script; an uncaught exception ends it too.\<close>

definition st_stop :: "world \<Rightarrow> world" where
  "st_stop w = w\<lparr>outcome := Stopped\<rparr>"

definition raise :: "exn \<Rightarrow> world \<Rightarrow> world" where
  "raise x w = w\<lparr>outcome := Raised x\<rparr>"

definition st_error :: "string \<Rightarrow> world \<Rightarrow> world" where
  "st_error m w = w\<lparr>messages := messages w @ [Error m]\<rparr>"

definition st_info :: "string \<Rightarrow> world \<Rightarrow> world" where
  "st_info m w = w\<lparr>messages := messages w @ [Info m]\<rparr>"

subsection \<open>The shot counter\<close>

text \<open>\<open>c[k]\<close> of a Counter is 0 for a missing key; \<open>c[k] = v\<close> keeps the key's place.\<close>

fun counter_get :: "(string \<times> int) list \<Rightarrow> string \<Rightarrow> int" where
  "counter_get [] k = 0"
| "counter_get ((k', v) # c) k = (if k' = k then v else counter_get c k)"

fun counter_set :: "(string \<times> int) list \<Rightarrow> string \<Rightarrow> int \<Rightarrow> (string \<times> int) list" where
  "counter_set [] k v = [(k, v)]"
| "counter_set ((k', v') # c) k v =
     (if k' = k then (k, v) # c else (k', v') # counter_set c k v)"

text \<open>Lines 121-123, for one box.\<close>

definition count_box :: "box \<Rightarrow> world \<Rightarrow> world" where
  "count_box b w =
     (let cls_id = py_int (cls b);
          w1 = w\<lparr>detections := detections w @ [cls_id]\<rparr>
      in case class_map cls_id of
           None \<Rightarrow> w1
         | Some label \<Rightarrow>
             w1\<lparr>shot_counter :=
                  counter_set (shot_counter w1) label (counter_get (shot_counter w1) label + 1)\<rparr>)"

text \<open>Line 120: \<open>for box in results[0].boxes\<close>.\<close>

fun count_boxes :: "box list \<Rightarrow> world \<Rightarrow> world" where
  "count_boxes [] w = w"
| "count_boxes (b # bs) w = count_boxes bs (count_box b w)"

subsection \<open>One frame\<close>

text \<open>
  Lines 125-130. \<open>annotated\<close> is a Python value that may be \<open>None\<close>; reading \<open>.dtype\<close> of
  \<open>None\<close> raises AttributeError.
\<close>

definition normalise :: "env \<Rightarrow> int \<Rightarrow> int \<Rightarrow> frame \<Rightarrow> frame option \<Rightarrow> exn + frame" where
  "normalise e width height frame annotated0 =
     (let annotated = (if annotated0 = None then Some frame else annotated0)
      in case annotated of
           None \<Rightarrow> Inl AttributeError
         | Some a \<Rightarrow>
             (let a1 = (if dtype a \<noteq> UInt8 then clip_scale e a else a)
              in if (int (cols a1), int (rows a1)) \<noteq> (width, height)
                 then cv2_resize e a1 (width, height)
                 else Inr a1))"

text \<open>Lines 134-137.\<close>

definition report_progress :: "int \<Rightarrow> world \<Rightarrow> world" where
  "report_progress frame_count w =
     (let w1 = w\<lparr>i_counter := i_counter w + 1\<rparr>
      in if frame_count > 0
         then (case py_truediv (i_counter w1) frame_count of
                 Inl x \<Rightarrow> raise x w1
               | Inr q \<Rightarrow>
                   w1\<lparr>progress_bar := progress_bar w1 @ [min q 1],
                      status_text := status_text w1 @ [(i_counter w1, frame_count)]\<rparr>)
         else w1)"

text \<open>Lines 116-137: the body of the loop for one frame that was read.\<close>

definition body :: "env \<Rightarrow> model \<Rightarrow> int \<Rightarrow> int \<Rightarrow> int \<Rightarrow> frame \<Rightarrow> world \<Rightarrow> world" where
  "body e model frame_count width height frame w =
     (case model frame of
        Inl msg \<Rightarrow> raise (LibError msg) w
      | Inr res \<Rightarrow>
          (let w1 = count_boxes (boxes res) w
           in case normalise e width height frame (plot res) of
                Inl x \<Rightarrow> raise x w1
              | Inr a \<Rightarrow>
                  report_progress frame_count
                    (w1\<lparr>written := written w1 @ [cvtColor_RGB2BGR a]\<rparr>)))"

text \<open>
  Lines 111-137. The capture reads a file, so the frames it hands out are a finite list;
  the empty list is the read with \<open>ret\<close> false, which breaks the loop. An exception ends
  the loop with the state as it was when it was raised.
\<close>

fun loop :: "env \<Rightarrow> model \<Rightarrow> int \<Rightarrow> int \<Rightarrow> int \<Rightarrow> frame list \<Rightarrow> world \<Rightarrow> world" where
  "loop e model frame_count width height [] w = w"
| "loop e model frame_count width height (frame # rest) w =
     (let w1 = body e model frame_count width height frame w
      in if outcome w1 = Running then loop e model frame_count width height rest w1 else w1)"

subsection \<open>After the loop\<close>

text \<open>Lines 139-169 (the coaching tip, which no state depends on, is left out).\<close>

definition finish :: "env \<Rightarrow> uploaded \<Rightarrow> world \<Rightarrow> world" where
  "finish e up w =
     (let w1 = w\<lparr>cap_released := True\<rparr>;
          w2 = w1\<lparr>writer_released := True\<rparr>;
          w3 = w2\<lparr>results_panel := Some (shot_counter w2)\<rparr>;
          w4 = (case out_file e of
                  None \<Rightarrow> w3
                | Some bytes \<Rightarrow>
                    if length bytes > 0
                    then w3\<lparr>download_button :=
                           Some \<lparr>dl_data = bytes, dl_file_name = ''processed_'' @ name up,
                                 dl_mime = ''video/mp4''\<rparr>\<rparr>
                    else w3)
      in w4\<lparr>outcome := Completed\<rparr>)"

subsection \<open>The script\<close>

definition cross_mark :: string where
  "cross_mark = [CHR 0xE2, CHR 0x9D, CHR 0x8C, CHR 0x20]"

definition load_failed_message :: "string \<Rightarrow> string" where
  "load_failed_message cause =
     cross_mark @ ''Failed to load model at '' @ [CHR 0x27] @ MODEL_PATH @ [CHR 0x27] @ '': '' @ cause"

definition open_failed_message :: string where
  "open_failed_message = cross_mark @ ''Could not open video. Please try a standard MP4 (H.264).''"

definition out_path :: "env \<Rightarrow> string" where
  "out_path e = tempdir e @ ''/'' @ ''processed_'' @ uuid_hex e @ ''.mp4''"

text \<open>Lines 93-96: the metadata the script takes from the capture.\<close>

definition frame_count_of :: "env \<Rightarrow> int" where
  "frame_count_of e = py_int (py_or (cap_get e CAP_PROP_FRAME_COUNT) 0)"

definition width_of :: "env \<Rightarrow> int" where
  "width_of e = py_int (py_or (cap_get e CAP_PROP_FRAME_WIDTH) 0)"

definition height_of :: "env \<Rightarrow> int" where
  "height_of e = py_int (py_or (cap_get e CAP_PROP_FRAME_HEIGHT) 0)"

definition fps_of :: "env \<Rightarrow> pyfloat" where
  "fps_of e = py_or (cap_get e CAP_PROP_FPS) 25"

text \<open>Lines 44-140, then \<open>finish\<close>.\<close>

definition run :: "env \<Rightarrow> world" where
  "run e =
     (case YOLO e MODEL_PATH of
        Inl cause \<Rightarrow> st_stop (st_error (load_failed_message cause) world0)
      | Inr model \<Rightarrow>
          (case uploaded_file e of
             None \<Rightarrow> st_stop (st_info ''Please upload a video to begin.'' world0)
           | Some up \<Rightarrow>
               (let w1 = world0\<lparr>cap_created := True\<rparr>
                in if \<not> isOpened e then st_stop (st_error open_failed_message w1)
                   else
                     (let frame_count = frame_count_of e;
                          width = width_of e;
                          height = height_of e;
                          fps = fps_of e;
                          w2 = w1\<lparr>writer :=
                                  Some \<lparr>vw_path = out_path e, vw_fourcc = ''mp4v'',
                                        vw_fps = fps, vw_size = (width, height)\<rparr>\<rparr>;
                          w3 = w2\<lparr>progress_bar := progress_bar w2 @ [0]\<rparr>;
                          w4 = loop e model frame_count width height (stream e) w3
                      in if outcome w4 = Running then finish e up w4 else w4))))"

section \<open>Notions the properties are stated with\<close>

text \<open>The class ids the tally counts, and the total of a tally.\<close>

definition in_scope :: "int \<Rightarrow> bool" where
  "in_scope c = (c \<in> {0, 1, 2})"

definition tally_total :: "(string \<times> int) list \<Rightarrow> int" where
  "tally_total c = sum_list (map snd c)"

text \<open>
  What one frame of the input becomes on its way to the writer, or the exception that
  its processing raises: the part of \<open>body\<close> that does not touch the state.
\<close>

definition frame_result :: "env \<Rightarrow> model \<Rightarrow> int \<Rightarrow> int \<Rightarrow> frame \<Rightarrow> exn + frame" where
  "frame_result e model width height frame =
     (case model frame of
        Inl msg \<Rightarrow> Inl (LibError msg)
      | Inr res \<Rightarrow>
          (case normalise e width height frame (plot res) of
             Inl x \<Rightarrow> Inl x
           | Inr a \<Rightarrow> Inr (cvtColor_RGB2BGR a)))"

definition shape_wh :: "frame \<Rightarrow> int \<times> int" where
  "shape_wh a = (int (cols a), int (rows a))"

text \<open>
  The frame that lines 127-130 make of a frame \<open>a\<close> when \<open>cv2.resize\<close> does not raise:
  a frame that is not \<open>uint8\<close> is clipped, scaled and cast, and a frame whose width and
  height are not the capture's is given them.
\<close>

definition normalised :: "env \<Rightarrow> int \<Rightarrow> int \<Rightarrow> frame \<Rightarrow> frame" where
  "normalised e width height a =
     (let a1 = (if dtype a = UInt8 then a else clip_scale e a)
      in if shape_wh a1 = (width, height) then a1
         else a1\<lparr>rows := nat height, cols := nat width,
                 pixels := interp e a1 (nat width) (nat height)\<rparr>)"

text \<open>
  The colours of a frame. An array has three channels and no record of what they mean:
  \<open>colours ord a\<close> is the (red, green, blue) of every pixel when the channels are read in
  the order \<open>ord\<close>. cv2 reads and writes frames in the order BGR: \<open>cap.read()\<close> hands
  out BGR frames and \<open>writer.write\<close> takes its argument as a BGR frame.
\<close>

datatype channel_order = RGB | BGR

definition colours :: "channel_order \<Rightarrow> frame \<Rightarrow> pixel list" where
  "colours ord a =
     map (\<lambda>(c0, c1, c2). case ord of RGB \<Rightarrow> (c0, c1, c2) | BGR \<Rightarrow> (c2, c1, c0)) (pixels a)"

text \<open>
  A valid input: the model loads, a file was uploaded, the capture opens, and the
  processing of every frame of the stream gets through without an exception.
\<close>

definition valid_input :: "env \<Rightarrow> model \<Rightarrow> bool" where
  "valid_input e m =
     (YOLO e MODEL_PATH = Inr m \<and> uploaded_file e \<noteq> None \<and> isOpened e \<and>
      list_all (\<lambda>f. \<not> isl (frame_result e m (width_of e) (height_of e) f)) (stream e))"

text \<open>The class ids of the detections of one frame, in the order of the boxes.\<close>

definition class_ids :: "model \<Rightarrow> frame \<Rightarrow> int list" where
  "class_ids m f = (case m f of Inl msg \<Rightarrow> [] | Inr res \<Rightarrow> map (\<lambda>b. py_int (cls b)) (boxes res))"

subsection \<open>Invariants of the loop\<close>

definition tally_inv :: "world \<Rightarrow> bool" where
  "tally_inv w =
     (list_all (\<lambda>(label, n). 0 \<le> n) (shot_counter w) \<and>
      tally_total (shot_counter w) = int (length (filter in_scope (detections w))))"

definition progress_inv :: "int \<Rightarrow> world \<Rightarrow> bool" where
  "progress_inv fc w =
     (sorted (progress_bar w) \<and> 0 \<le> i_counter w \<and>
      list_all (\<lambda>p. 0 \<le> p \<and> p \<le> 1 \<and> (0 < fc \<longrightarrow> p \<le> of_int (i_counter w) / of_int fc))
        (progress_bar w) \<and>
      (fc \<le> 0 \<longrightarrow> status_text w = [] \<and> progress_bar w = [0]) \<and>
      (0 < fc \<longrightarrow> length (status_text w) = length (written w) \<and>
                   length (progress_bar w) = Suc (length (written w))))"

text \<open>The loop is left running or by an exception of a library call, never otherwise.\<close>

definition lib_or_running :: "outcome \<Rightarrow> bool" where
  "lib_or_running oc = (case oc of Running \<Rightarrow> True | Raised (LibError msg) \<Rightarrow> True | _ \<Rightarrow> False)"

subsection \<open>Concrete runs\<close>

definition frame_a :: frame where
  "frame_a = \<lparr>dtype = UInt8, rows = 1, cols = 2, pixels = [(10, 20, 30), (40, 50, 60)]\<rparr>"

definition frame_b :: frame where
  "frame_b = \<lparr>dtype = UInt8, rows = 1, cols = 2, pixels = [(1, 2, 3), (4, 5, 6)]\<rparr>"

definition frame_float :: frame where
  "frame_float = \<lparr>dtype = Float64, rows = 1, cols = 2,
     pixels = [(1 / 2, - 1, 2), (1, 0, 1 / 4)]\<rparr>"

text \<open>A detector that draws nothing and reports a forehand and an unknown class.\<close>

definition plain_model :: model where
  "plain_model f = Inr \<lparr>plot = None, boxes = [\<lparr>cls = 0\<rparr>, \<lparr>cls = 7\<rparr>]\<rparr>"

text \<open>
  A detector that returns a float picture and one serve. The values of the picture are
  such that their products with 255 are values of the dtype, so that the product of the
  concrete runs, which is exact, is numpy's.
\<close>

definition float_model :: model where
  "float_model f = Inr \<lparr>plot = Some frame_float, boxes = [\<lparr>cls = 2\<rparr>]\<rparr>"

text \<open>A detector whose inference raises.\<close>

definition failing_model :: model where
  "failing_model f = Inl ''CUDA out of memory''"

definition demo_env :: env where
  "demo_env = \<lparr>YOLO = (\<lambda>p. Inr plain_model),
     uploaded_file = Some \<lparr>name = ''rally.mp4'', content = []\<rparr>,
     isOpened = True,
     cap_get = (\<lambda>p. case p of CAP_PROP_FRAME_COUNT \<Rightarrow> 2 | CAP_PROP_FRAME_WIDTH \<Rightarrow> 2
                  | CAP_PROP_FRAME_HEIGHT \<Rightarrow> 1 | CAP_PROP_FPS \<Rightarrow> 30),
     stream = [frame_a, frame_b],
     interp = (\<lambda>a w h. replicate (w * h) (0, 0, 0)),
     np_multiply = (\<lambda>dt x y. x * y),
     tempdir = ''/tmp'', uuid_hex = ''0f'', out_file = Some ''mp4''\<rparr>"

text \<open>The same run with a container that reports no frame count.\<close>

definition env_no_count :: env where
  "env_no_count = demo_env\<lparr>cap_get := (\<lambda>p. case p of CAP_PROP_FRAME_COUNT \<Rightarrow> 0
       | CAP_PROP_FRAME_WIDTH \<Rightarrow> 2 | CAP_PROP_FRAME_HEIGHT \<Rightarrow> 1 | CAP_PROP_FPS \<Rightarrow> 30)\<rparr>"

section \<open>Auxiliary facts about the state\<close>

lemma count_box_fields [simp]:
  "outcome (count_box b w) = outcome w"
  "messages (count_box b w) = messages w"
  "cap_created (count_box b w) = cap_created w"
  "cap_released (count_box b w) = cap_released w"
  "writer (count_box b w) = writer w"
  "writer_released (count_box b w) = writer_released w"
  "written (count_box b w) = written w"
  "i_counter (count_box b w) = i_counter w"
  "progress_bar (count_box b w) = progress_bar w"
  "status_text (count_box b w) = status_text w"
  "results_panel (count_box b w) = results_panel w"
  "download_button (count_box b w) = download_button w"
  by (simp_all add: count_box_def Let_def split: option.splits)

lemma count_boxes_fields [simp]:
  "outcome (count_boxes bs w) = outcome w"
  "messages (count_boxes bs w) = messages w"
  "cap_created (count_boxes bs w) = cap_created w"
  "cap_released (count_boxes bs w) = cap_released w"
  "writer (count_boxes bs w) = writer w"
  "writer_released (count_boxes bs w) = writer_released w"
  "written (count_boxes bs w) = written w"
  "i_counter (count_boxes bs w) = i_counter w"
  "progress_bar (count_boxes bs w) = progress_bar w"
  "status_text (count_boxes bs w) = status_text w"
  "results_panel (count_boxes bs w) = results_panel w"
  "download_button (count_boxes bs w) = download_button w"
  by (induction bs arbitrary: w; simp)+

lemma report_progress_fields [simp]:
  "messages (report_progress fc w) = messages w"
  "cap_created (report_progress fc w) = cap_created w"
  "cap_released (report_progress fc w) = cap_released w"
  "writer (report_progress fc w) = writer w"
  "writer_released (report_progress fc w) = writer_released w"
  "written (report_progress fc w) = written w"
  "shot_counter (report_progress fc w) = shot_counter w"
  "detections (report_progress fc w) = detections w"
  "i_counter (report_progress fc w) = i_counter w + 1"
  "results_panel (report_progress fc w) = results_panel w"
  "download_button (report_progress fc w) = download_button w"
  by (simp_all add: report_progress_def py_truediv_def raise_def Let_def)

lemma report_progress_outcome [simp]:
  "outcome (report_progress fc w) = outcome w"
  by (simp add: report_progress_def py_truediv_def raise_def Let_def)

lemma body_fields [simp]:
  "messages (body e m fc wd ht f w) = messages w"
  "cap_created (body e m fc wd ht f w) = cap_created w"
  "cap_released (body e m fc wd ht f w) = cap_released w"
  "writer (body e m fc wd ht f w) = writer w"
  "writer_released (body e m fc wd ht f w) = writer_released w"
  "results_panel (body e m fc wd ht f w) = results_panel w"
  "download_button (body e m fc wd ht f w) = download_button w"
  by (simp_all add: body_def raise_def Let_def split: sum.splits)

lemma loop_fields [simp]:
  "messages (loop e m fc wd ht fs w) = messages w"
  "cap_created (loop e m fc wd ht fs w) = cap_created w"
  "cap_released (loop e m fc wd ht fs w) = cap_released w"
  "writer (loop e m fc wd ht fs w) = writer w"
  "writer_released (loop e m fc wd ht fs w) = writer_released w"
  "results_panel (loop e m fc wd ht fs w) = results_panel w"
  "download_button (loop e m fc wd ht fs w) = download_button w"
  by (induction fs arbitrary: w; simp add: Let_def)+

lemma loop_outcome_not_special:
  "outcome w = Running \<Longrightarrow> outcome (loop e m fc wd ht fs w) \<noteq> Completed \<and> outcome (loop e m fc wd ht fs w) \<noteq> Stopped"
  apply (induction fs arbitrary: w)
   apply simp
  apply (simp add: Let_def)
  apply (auto simp: body_def raise_def Let_def split: sum.splits)
  done

lemma finish_fields [simp]:
  "outcome (finish e up w) = Completed"
  "messages (finish e up w) = messages w"
  "cap_created (finish e up w) = cap_created w"
  "cap_released (finish e up w) = True"
  "writer (finish e up w) = writer w"
  "writer_released (finish e up w) = True"
  "written (finish e up w) = written w"
  "shot_counter (finish e up w) = shot_counter w"
  "detections (finish e up w) = detections w"
  "i_counter (finish e up w) = i_counter w"
  "progress_bar (finish e up w) = progress_bar w"
  "status_text (finish e up w) = status_text w"
  by (simp_all add: finish_def Let_def split: option.splits)

subsection \<open>Normalising a frame\<close>

lemma normalise_none: "normalise e wd ht f None = normalise e wd ht f (Some f)"
  by (simp add: normalise_def)

lemma normalise_some:
  "normalise e wd ht f (Some a) =
     (if shape_wh a = (wd, ht) \<or> (0 < wd \<and> 0 < ht) then Inr (normalised e wd ht a)
      else Inl (LibError ''cv2.error''))"
  by (auto simp: normalise_def normalised_def cv2_resize_def clip_scale_def shape_wh_def Let_def)

lemma normalised_dtype: "dtype (normalised e wd ht a) = UInt8"
  by (simp add: normalised_def clip_scale_def Let_def)

lemma normalised_shape:
  "shape_wh a = (wd, ht) \<or> (0 < wd \<and> 0 < ht) \<Longrightarrow> shape_wh (normalised e wd ht a) = (wd, ht)"
  by (auto simp: normalised_def clip_scale_def shape_wh_def Let_def)

text \<open>The cast leaves whole numbers from 0 to 255, whatever the product was.\<close>

lemma astype_uint8_range:
  "0 \<le> astype_uint8 v \<and> astype_uint8 v \<le> 255 \<and> astype_uint8 v = of_int \<lfloor>astype_uint8 v\<rfloor>"
proof -
  have "0 \<le> py_int v mod 256" "py_int v mod 256 < 256" by simp_all
  then have "0 \<le> py_int v mod 256" "py_int v mod 256 \<le> 255" by linarith+
  then have "(0::rat) \<le> of_int (py_int v mod 256)" "(of_int (py_int v mod 256) :: rat) \<le> of_int 255"
    by (simp_all only: of_int_0_le_iff of_int_le_iff)
  then show ?thesis by (simp add: astype_uint8_def)
qed

subsection \<open>How a run can end\<close>

lemma normalise_raises_only_lib:
  "normalise e wd ht f ann = Inl x \<Longrightarrow> x = LibError ''cv2.error''"
  by (auto simp: normalise_def cv2_resize_def Let_def split: option.splits if_splits)

lemma body_outcome:
  assumes "outcome w = Running"
  shows "lib_or_running (outcome (body e m fc wd ht f w))"
proof (cases "m f")
  case (Inl msg)
  then show ?thesis by (simp add: body_def raise_def lib_or_running_def)
next
  case (Inr res)
  show ?thesis
  proof (cases "normalise e wd ht f (plot res)")
    case (Inl x)
    then have "x = LibError ''cv2.error''" by (rule normalise_raises_only_lib)
    with Inl Inr show ?thesis by (simp add: body_def raise_def lib_or_running_def Let_def)
  next
    case (Inr a)
    with \<open>m f = Inr res\<close> assms show ?thesis
      by (simp add: body_def lib_or_running_def Let_def)
  qed
qed

lemma loop_outcome:
  "outcome w = Running \<Longrightarrow> lib_or_running (outcome (loop e m fc wd ht fs w))"
proof (induction fs arbitrary: w)
  case Nil
  then show ?case by (simp add: lib_or_running_def)
next
  case (Cons f fs)
  then show ?case
    using body_outcome [OF Cons.prems, of e m fc wd ht f]
    by (simp add: Let_def)
qed

lemma run_outcome:
  "outcome (run e) = Completed \<or> outcome (run e) = Stopped \<or>
   (\<exists>msg. outcome (run e) = Raised (LibError msg))"
proof -
  have l: "\<And>m v. lib_or_running (outcome (loop e m (frame_count_of e) (width_of e) (height_of e) (stream e)
              (world0\<lparr>cap_created := True, writer := Some v, progress_bar := [0]\<rparr>)))"
    by (rule loop_outcome) (simp add: world0_def)
  have c: "\<And>oc. lib_or_running oc \<Longrightarrow> oc \<noteq> Running \<Longrightarrow> \<exists>msg. oc = Raised (LibError msg)"
    by (auto simp: lib_or_running_def split: outcome.splits exn.splits)
  show ?thesis
    using l c
    by (auto simp: run_def Let_def st_stop_def st_error_def st_info_def world0_def
        split: sum.splits option.splits)
qed

subsection \<open>One frame, and a stream of frames that all get through\<close>

lemma body_frame_result_Inr:
  assumes "frame_result e m wd ht f = Inr g"
  shows "outcome (body e m fc wd ht f w) = outcome w"
    and "written (body e m fc wd ht f w) = written w @ [g]"
    and "i_counter (body e m fc wd ht f w) = i_counter w + 1"
  using assms by (auto simp: frame_result_def body_def Let_def split: sum.splits)

lemma body_frame_result_Inl:
  assumes "frame_result e m wd ht f = Inl x"
  shows "outcome (body e m fc wd ht f w) = Raised x"
    and "written (body e m fc wd ht f w) = written w"
    and "i_counter (body e m fc wd ht f w) = i_counter w"
  using assms by (auto simp: frame_result_def body_def raise_def Let_def split: sum.splits)

lemma loop_all_frames:
  assumes "outcome w = Running"
    and "list_all (\<lambda>f. \<not> isl (frame_result e m wd ht f)) fs"
  shows "outcome (loop e m fc wd ht fs w) = Running \<and>
         map Inr (written (loop e m fc wd ht fs w)) =
           map Inr (written w) @ map (frame_result e m wd ht) fs \<and>
         i_counter (loop e m fc wd ht fs w) = i_counter w + int (length fs)"
  using assms
proof (induction fs arbitrary: w)
  case Nil
  then show ?case by simp
next
  case (Cons f fs)
  from Cons.prems(2) obtain g where g: "frame_result e m wd ht f = Inr g"
    by (cases "frame_result e m wd ht f") auto
  let ?w1 = "body e m fc wd ht f w"
  have o: "outcome ?w1 = Running"
    using body_frame_result_Inr(1) [OF g] Cons.prems(1) by simp
  have rest: "list_all (\<lambda>f. \<not> isl (frame_result e m wd ht f)) fs"
    using Cons.prems(2) by simp
  from Cons.IH [OF o rest] show ?case
    using o g body_frame_result_Inr(2,3) [OF g, of fc w] by (simp add: Let_def)
qed

lemma count_boxes_detections:
  "detections (count_boxes bs w) = detections w @ map (\<lambda>b. py_int (cls b)) bs"
  by (induction bs arbitrary: w) (simp_all add: count_box_def Let_def split: option.splits)

lemma body_detections:
  "frame_result e m wd ht f = Inr g \<Longrightarrow>
   detections (body e m fc wd ht f w) = detections w @ class_ids m f"
  by (auto simp: frame_result_def body_def class_ids_def count_boxes_detections Let_def
      split: sum.splits)

lemma loop_detections:
  assumes "outcome w = Running"
    and "list_all (\<lambda>f. \<not> isl (frame_result e m wd ht f)) fs"
  shows "detections (loop e m fc wd ht fs w) = detections w @ concat (map (class_ids m) fs)"
  using assms
proof (induction fs arbitrary: w)
  case Nil
  then show ?case by simp
next
  case (Cons f fs)
  from Cons.prems(2) obtain g where g: "frame_result e m wd ht f = Inr g"
    by (cases "frame_result e m wd ht f") auto
  let ?w1 = "body e m fc wd ht f w"
  have o: "outcome ?w1 = Running"
    using body_frame_result_Inr(1) [OF g] Cons.prems(1) by simp
  have rest: "list_all (\<lambda>f. \<not> isl (frame_result e m wd ht f)) fs"
    using Cons.prems(2) by simp
  from Cons.IH [OF o rest] show ?case
    using o body_detections [OF g, of fc w] by (simp add: Let_def)
qed

lemma run_detections:
  assumes "valid_input e m"
  shows "detections (run e) = concat (map (class_ids m) (stream e))"
proof -
  from assms obtain up where m: "YOLO e MODEL_PATH = Inr m" and up: "uploaded_file e = Some up"
    and op: "isOpened e"
    and ok: "list_all (\<lambda>f. \<not> isl (frame_result e m (width_of e) (height_of e) f)) (stream e)"
    by (auto simp: valid_input_def)
  define w3 where "w3 = world0\<lparr>cap_created := True,
      writer := Some \<lparr>vw_path = out_path e, vw_fourcc = ''mp4v'',
                      vw_fps = fps_of e, vw_size = (width_of e, height_of e)\<rparr>,
      progress_bar := [0]\<rparr>"
  define w4 where "w4 = loop e m (frame_count_of e) (width_of e) (height_of e) (stream e) w3"
  have r: "run e = (if outcome w4 = Running then finish e up w4 else w4)"
    using m up op by (simp add: run_def Let_def w4_def w3_def world0_def)
  have s: "outcome w3 = Running" "detections w3 = []"
    by (simp_all add: w3_def world0_def)
  from loop_detections [OF s(1) ok, of "frame_count_of e"]
  have "detections w4 = concat (map (class_ids m) (stream e))"
    using s by (simp add: w4_def)
  with r show ?thesis by simp
qed

text \<open>The runs that complete are exactly those of the valid inputs.\<close>

lemma loop_some_frame_raises:
  assumes "outcome w = Running"
    and "\<not> list_all (\<lambda>f. \<not> isl (frame_result e m wd ht f)) fs"
  shows "outcome (loop e m fc wd ht fs w) \<noteq> Running"
  using assms
proof (induction fs arbitrary: w)
  case Nil
  then show ?case by simp
next
  case (Cons f fs)
  show ?case
  proof (cases "frame_result e m wd ht f")
    case (Inl x)
    then show ?thesis
      using body_frame_result_Inl(1) [OF Inl, of fc w] by (simp add: Let_def)
  next
    case (Inr g)
    have o: "outcome (body e m fc wd ht f w) = Running"
      using body_frame_result_Inr(1) [OF Inr, of fc w] Cons.prems(1) by simp
    have "\<not> list_all (\<lambda>f. \<not> isl (frame_result e m wd ht f)) fs"
      using Cons.prems(2) Inr by simp
    from Cons.IH [OF o this] o show ?thesis by (simp add: Let_def)
  qed
qed

lemma completed_iff_valid_input:
  "(outcome (run e) = Completed) = (\<exists>m. valid_input e m)"
proof (cases "YOLO e MODEL_PATH")
  case (Inl cause)
  then show ?thesis by (simp add: run_def st_stop_def st_error_def world0_def valid_input_def)
next
  case (Inr m)
  show ?thesis
  proof (cases "uploaded_file e")
    case None
    with Inr show ?thesis
      by (simp add: run_def st_stop_def st_info_def world0_def valid_input_def)
  next
    case (Some up)
    show ?thesis
    proof (cases "isOpened e")
      case False
      with Inr Some show ?thesis
        by (simp add: run_def st_stop_def st_error_def world0_def valid_input_def)
    next
      case True
      define w3 where "w3 = world0\<lparr>cap_created := True,
          writer := Some \<lparr>vw_path = out_path e, vw_fourcc = ''mp4v'',
                          vw_fps = fps_of e, vw_size = (width_of e, height_of e)\<rparr>,
          progress_bar := [0]\<rparr>"
      define w4 where "w4 = loop e m (frame_count_of e) (width_of e) (height_of e) (stream e) w3"
      have r: "run e = (if outcome w4 = Running then finish e up w4 else w4)"
        using Inr Some True by (simp add: run_def Let_def w4_def w3_def world0_def)
      have o: "outcome w3 = Running" by (simp add: w3_def world0_def)
      have nc: "outcome w4 \<noteq> Completed"
        unfolding w4_def using o loop_outcome_not_special by blast
      have v: "(\<exists>m'. valid_input e m') =
          list_all (\<lambda>f. \<not> isl (frame_result e m (width_of e) (height_of e) f)) (stream e)"
        using Inr Some True by (auto simp: valid_input_def)
      show ?thesis
      proof (cases "list_all (\<lambda>f. \<not> isl (frame_result e m (width_of e) (height_of e) f)) (stream e)")
        case True
        from loop_all_frames [OF o True, of "frame_count_of e"]
        have "outcome w4 = Running" by (simp add: w4_def)
        with r v True show ?thesis by simp
      next
        case False
        from loop_some_frame_raises [OF o False, of "frame_count_of e"]
        have "outcome w4 \<noteq> Running" by (simp add: w4_def)
        with r v nc False show ?thesis by simp
      qed
    qed
  qed
qed

subsection \<open>The concrete runs\<close>

lemma run_demo_env:
  "run demo_env = \<lparr>outcome = Completed, messages = [], cap_created = True,
    cap_released = True,
    writer = Some \<lparr>vw_path = ''/tmp/processed_0f.mp4'', vw_fourcc = ''mp4v'',
          vw_fps = 30, vw_size = (2, 1)\<rparr>,
    writer_released = True,
    written = [\<lparr>dtype = UInt8, rows = 1, cols = 2, pixels = [(30, 20, 10), (60, 50, 40)]\<rparr>,
       \<lparr>dtype = UInt8, rows = 1, cols = 2, pixels = [(3, 2, 1), (6, 5, 4)]\<rparr>],
    shot_counter = [(''Forehand'', 2)], detections = [0, 7, 0, 7],
    i_counter = 2, progress_bar = [0, 1 / 2, 1],
    status_text = [(1, 2), (2, 2)],
    results_panel = Some [(''Forehand'', 2)],
    download_button = Some \<lparr>dl_data = ''mp4'', dl_file_name = ''processed_rally.mp4'',
          dl_mime = ''video/mp4''\<rparr>\<rparr>"
  by (simp add: run_def demo_env_def Let_def plain_model_def body_def world0_def
     frame_count_of_def width_of_def height_of_def fps_of_def py_int_def py_or_def
     normalise_def frame_a_def frame_b_def report_progress_def py_truediv_def count_box_def
     class_map_def finish_def out_path_def cvtColor_RGB2BGR_def)

lemma valid_demo: "valid_input demo_env plain_model"
  by (simp add: valid_input_def demo_env_def frame_result_def plain_model_def normalise_def
      width_of_def height_of_def py_or_def py_int_def frame_a_def frame_b_def Let_def)

lemma run_env_no_count:
  "frame_count_of env_no_count = 0 \<and> outcome (run env_no_count) = Completed \<and>
   length (written (run env_no_count)) = 2 \<and> i_counter (run env_no_count) = 2 \<and>
   status_text (run env_no_count) = [] \<and> progress_bar (run env_no_count) = [0]"
  by (simp add: run_def env_no_count_def demo_env_def Let_def plain_model_def body_def world0_def
     frame_count_of_def width_of_def height_of_def fps_of_def py_int_def py_or_def
     normalise_def frame_a_def frame_b_def report_progress_def py_truediv_def count_box_def
     class_map_def finish_def out_path_def cvtColor_RGB2BGR_def)

section \<open>C1: one frame written for each frame read\<close>

text \<open>
  C1. For a valid input (the model loads, a file was uploaded, the capture opens, and the
  processing of no frame raises) the run completes, the writer receives as many frames as
  the capture handed out, \<open>i\<close> counts them, and the frames written are, position by
  position, the results of the frames read: none is dropped, repeated or moved.
\<close>

theorem one_frame_written_per_frame_read:
  assumes "valid_input e m"
  shows "outcome (run e) = Completed \<and>
         length (written (run e)) = length (stream e) \<and>
         i_counter (run e) = int (length (stream e)) \<and>
         map Inr (written (run e)) =
           map (frame_result e m (width_of e) (height_of e)) (stream e)"
proof -
  from assms obtain up where m: "YOLO e MODEL_PATH = Inr m" and up: "uploaded_file e = Some up"
    and op: "isOpened e"
    and ok: "list_all (\<lambda>f. \<not> isl (frame_result e m (width_of e) (height_of e) f)) (stream e)"
    by (auto simp: valid_input_def)
  define w3 where "w3 = world0\<lparr>cap_created := True,
      writer := Some \<lparr>vw_path = out_path e, vw_fourcc = ''mp4v'',
                      vw_fps = fps_of e, vw_size = (width_of e, height_of e)\<rparr>,
      progress_bar := [0]\<rparr>"
  define w4 where "w4 = loop e m (frame_count_of e) (width_of e) (height_of e) (stream e) w3"
  have r: "run e = (if outcome w4 = Running then finish e up w4 else w4)"
    using m up op by (simp add: run_def Let_def w4_def w3_def world0_def)
  have s: "outcome w3 = Running" "written w3 = []" "i_counter w3 = 0"
    by (simp_all add: w3_def world0_def)
  from loop_all_frames [OF s(1) ok, of "frame_count_of e"]
  have l: "outcome w4 = Running"
      "map Inr (written w4) = map (frame_result e m (width_of e) (height_of e)) (stream e)"
      "i_counter w4 = int (length (stream e))"
    using s by (simp_all add: w4_def)
  from l(2) have "length (map (Inr :: frame \<Rightarrow> exn + frame) (written w4)) = length (map (frame_result e m (width_of e) (height_of e)) (stream e))"
    by simp
  then have len: "length (written w4) = length (stream e)" by simp
  show ?thesis using r l len by simp
qed

theorem one_frame_written_per_frame_read_witness:
  "valid_input demo_env plain_model \<and> outcome (run demo_env) = Completed \<and>
   length (written (run demo_env)) = length (stream demo_env) \<and>
   length (stream demo_env) = 2 \<and>
   written (run demo_env) = [cvtColor_RGB2BGR frame_a, cvtColor_RGB2BGR frame_b]"
proof -
  have v: "valid_input demo_env plain_model" by (rule valid_demo)
  have s: "stream demo_env = [frame_a, frame_b]" by (simp add: demo_env_def)
  have w: "written (run demo_env) = [cvtColor_RGB2BGR frame_a, cvtColor_RGB2BGR frame_b]"
    by (simp add: run_demo_env cvtColor_RGB2BGR_def frame_a_def frame_b_def)
  from one_frame_written_per_frame_read [OF v] v s w show ?thesis by simp
qed

section \<open>C2: the shot tally\<close>

lemma class_map_in_scope: "(class_map c \<noteq> None) = in_scope c"
  by (simp add: class_map_def in_scope_def)

lemma counter_get_nonneg:
  "list_all (\<lambda>(label, n). 0 \<le> n) c \<Longrightarrow> 0 \<le> counter_get c k"
  by (induction c) auto

lemma counter_set_nonneg:
  "list_all (\<lambda>(label, n). 0 \<le> n) c \<Longrightarrow> 0 \<le> v \<Longrightarrow>
   list_all (\<lambda>(label, n). 0 \<le> n) (counter_set c k v)"
  by (induction c) auto

lemma counter_set_total:
  "tally_total (counter_set c k v) = tally_total c - counter_get c k + v"
  by (induction c) (auto simp: tally_total_def)

lemma count_box_inv: "tally_inv w \<Longrightarrow> tally_inv (count_box b w)"
proof -
  assume inv: "tally_inv w"
  show ?thesis
  proof (cases "class_map (py_int (cls b))")
    case None
    then have "\<not> in_scope (py_int (cls b))"
      using class_map_in_scope [of "py_int (cls b)"] by simp
    with None inv show ?thesis
      by (simp add: tally_inv_def count_box_def Let_def)
  next
    case (Some label)
    then have "in_scope (py_int (cls b))"
      using class_map_in_scope [of "py_int (cls b)"] by simp
    with Some inv show ?thesis
      by (simp add: tally_inv_def count_box_def Let_def counter_set_total
          counter_set_nonneg counter_get_nonneg)
  qed
qed

lemma count_boxes_inv: "tally_inv w \<Longrightarrow> tally_inv (count_boxes bs w)"
  by (induction bs arbitrary: w) (simp_all add: count_box_inv)

lemma tally_inv_cong:
  "shot_counter w' = shot_counter w \<Longrightarrow> detections w' = detections w \<Longrightarrow>
   tally_inv w' = tally_inv w"
  by (simp add: tally_inv_def)

lemma body_inv: "tally_inv w \<Longrightarrow> tally_inv (body e m fc wd ht f w)"
proof -
  assume inv: "tally_inv w"
  show ?thesis
  proof (cases "m f")
    case (Inl msg)
    with inv show ?thesis
      by (simp add: body_def raise_def tally_inv_def)
  next
    case (Inr res)
    have c: "tally_inv (count_boxes (boxes res) w)"
      using inv by (rule count_boxes_inv)
    show ?thesis
    proof (cases "normalise e wd ht f (plot res)")
      case (Inl x)
      have "tally_inv (raise x (count_boxes (boxes res) w)) = tally_inv (count_boxes (boxes res) w)"
        by (rule tally_inv_cong) (simp_all add: raise_def)
      with c Inl Inr show ?thesis by (simp add: body_def Let_def)
    next
      case (Inr a)
      have "tally_inv (report_progress fc (count_boxes (boxes res) w\<lparr>written :=
               written (count_boxes (boxes res) w) @ [cvtColor_RGB2BGR a]\<rparr>))
            = tally_inv (count_boxes (boxes res) w)"
        by (rule tally_inv_cong) simp_all
      with c Inr \<open>m f = Inr res\<close> show ?thesis by (simp add: body_def Let_def)
    qed
  qed
qed

lemma loop_inv: "tally_inv w \<Longrightarrow> tally_inv (loop e m fc wd ht fs w)"
  by (induction fs arbitrary: w) (simp_all add: Let_def body_inv)

lemma finish_inv: "tally_inv (finish e up w) = tally_inv w"
  by (rule tally_inv_cong) simp_all

lemma run_inv: "tally_inv (run e)"
proof -
  have 0: "tally_inv world0"
    by (simp add: tally_inv_def world0_def tally_total_def)
  have s: "\<And>x. tally_inv (st_stop (st_error x world0))"
      "\<And>x. tally_inv (st_stop (st_info x world0))"
      "\<And>x. tally_inv (st_stop (st_error x (world0\<lparr>cap_created := True\<rparr>)))"
    by (simp_all add: tally_inv_def world0_def tally_total_def st_stop_def st_error_def st_info_def)
  have l: "\<And>m v. tally_inv (loop e m (frame_count_of e) (width_of e) (height_of e) (stream e)
              (world0\<lparr>cap_created := True, writer := Some v, progress_bar := [0]\<rparr>))"
    by (rule loop_inv) (simp add: tally_inv_def world0_def tally_total_def)
  show ?thesis
    using s l by (simp add: run_def Let_def finish_inv world0_def split: sum.splits option.splits)
qed

text \<open>
  C2. In the state in which any run ends (so also a run cut short at any frame) every
  count of the tally is at least 0 and the counts add up to the number of class ids in
  {0, 1, 2} among the detections the loop has gone through. A box with another class id
  leaves the tally as it is, a box with one of the three adds one. In a valid run the
  detections gone through are those of all frames, in order.
\<close>

theorem tally_counts_in_scope_detections:
  "list_all (\<lambda>(label, n). 0 \<le> n) (shot_counter (run e)) \<and>
   tally_total (shot_counter (run e)) = int (length (filter in_scope (detections (run e)))) \<and>
   (\<not> in_scope (py_int (cls b)) \<longrightarrow> shot_counter (count_box b w) = shot_counter w) \<and>
   (in_scope (py_int (cls b)) \<longrightarrow>
      tally_total (shot_counter (count_box b w)) = tally_total (shot_counter w) + 1) \<and>
   (valid_input e m \<longrightarrow> detections (run e) = concat (map (class_ids m) (stream e)))"
proof -
  have a: "\<not> in_scope (py_int (cls b)) \<longrightarrow> shot_counter (count_box b w) = shot_counter w"
    using class_map_in_scope [of "py_int (cls b)"]
    by (auto simp: count_box_def Let_def split: option.splits)
  have b: "in_scope (py_int (cls b)) \<longrightarrow>
      tally_total (shot_counter (count_box b w)) = tally_total (shot_counter w) + 1"
    using class_map_in_scope [of "py_int (cls b)"]
    by (auto simp: count_box_def Let_def counter_set_total split: option.splits)
  from run_inv [of e] a b run_detections [of e m] show ?thesis by (simp add: tally_inv_def)
qed

theorem tally_counts_in_scope_detections_witness:
  "shot_counter (run demo_env) = [(''Forehand'', 2)] \<and>
   detections (run demo_env) = [0, 7, 0, 7] \<and>
   filter in_scope [0, 7, 0, 7] = [0, 0] \<and>
   tally_total (shot_counter (run demo_env)) = 2 \<and>
   \<not> in_scope (py_int (cls \<lparr>cls = 7\<rparr>)) \<and>
   shot_counter (count_box \<lparr>cls = 7\<rparr> (run demo_env)) = shot_counter (run demo_env) \<and>
   in_scope (py_int (cls \<lparr>cls = 1\<rparr>)) \<and>
   tally_total (shot_counter (count_box \<lparr>cls = 1\<rparr> (run demo_env))) = 3 \<and>
   valid_input demo_env plain_model \<and>
   concat (map (class_ids plain_model) (stream demo_env)) = [0, 7, 0, 7]"
proof -
  have i: "\<not> in_scope (py_int (cls \<lparr>cls = 7\<rparr>))" "in_scope (py_int (cls \<lparr>cls = 1\<rparr>))"
    by (simp_all add: in_scope_def py_int_def)
  have f: "filter in_scope [0, 7, 0, 7] = [0, 0]"
    by (simp add: in_scope_def)
  have r: "shot_counter (run demo_env) = [(''Forehand'', 2)]" "detections (run demo_env) = [0, 7, 0, 7]"
    by (simp_all add: run_demo_env)
  from tally_counts_in_scope_detections [of demo_env "\<lparr>cls = 7\<rparr>" "run demo_env" plain_model]
    tally_counts_in_scope_detections [of demo_env "\<lparr>cls = 1\<rparr>" "run demo_env" plain_model]
    i f r valid_demo show ?thesis by (simp add: tally_total_def)
qed

section \<open>C3: releasing the capture and the writer\<close>

text \<open>
  C3, as the script has it. The capture and the writer are released exactly in the runs
  that leave the loop through its \<open>break\<close> (the end of the file or a failed read) and go
  on to the results. A run that \<open>st.stop()\<close> ends, or that an exception of a per-frame
  call ends, releases neither.
\<close>

theorem release_iff_completed:
  "cap_released (run e) = (outcome (run e) = Completed) \<and>
   writer_released (run e) = (outcome (run e) = Completed)"
proof (cases "YOLO e MODEL_PATH")
  case (Inl cause)
  then show ?thesis by (simp add: run_def st_stop_def st_error_def world0_def)
next
  case (Inr m)
  show ?thesis
  proof (cases "uploaded_file e")
    case None
    with Inr show ?thesis by (simp add: run_def st_stop_def st_info_def world0_def)
  next
    case (Some up)
    show ?thesis
    proof (cases "isOpened e")
      case False
      with Inr Some show ?thesis by (simp add: run_def st_stop_def st_error_def world0_def)
    next
      case True
      define w3 where "w3 = world0\<lparr>cap_created := True,
          writer := Some \<lparr>vw_path = out_path e, vw_fourcc = ''mp4v'',
                          vw_fps = fps_of e, vw_size = (width_of e, height_of e)\<rparr>,
          progress_bar := [0]\<rparr>"
      define w4 where "w4 = loop e m (frame_count_of e) (width_of e) (height_of e) (stream e) w3"
      have r: "run e = (if outcome w4 = Running then finish e up w4 else w4)"
        using Inr Some True by (simp add: run_def Let_def w4_def w3_def world0_def)
      have "outcome w3 = Running" by (simp add: w3_def world0_def)
      then have nc: "outcome w4 \<noteq> Completed"
        unfolding w4_def using loop_outcome_not_special by blast
      have "cap_released w4 = False" "writer_released w4 = False"
        by (simp_all add: w4_def w3_def world0_def)
      with nc r show ?thesis by simp
    qed
  qed
qed

text \<open>
  C3 as stated fails: in this run the detector raises on the first frame; the capture
  and the writer have been opened and neither is released.
\<close>

theorem release_skipped_on_exception:
  "outcome (run (demo_env\<lparr>YOLO := \<lambda>p. Inr failing_model\<rparr>)) = Raised (LibError ''CUDA out of memory'') \<and>
   cap_created (run (demo_env\<lparr>YOLO := \<lambda>p. Inr failing_model\<rparr>)) \<and>
   writer (run (demo_env\<lparr>YOLO := \<lambda>p. Inr failing_model\<rparr>)) \<noteq> None \<and>
   \<not> cap_released (run (demo_env\<lparr>YOLO := \<lambda>p. Inr failing_model\<rparr>)) \<and>
   \<not> writer_released (run (demo_env\<lparr>YOLO := \<lambda>p. Inr failing_model\<rparr>))"
  by (simp add: run_def demo_env_def Let_def failing_model_def body_def world0_def raise_def)

section \<open>C4: progress reports\<close>

lemma progress_inv_cong:
  "progress_bar w' = progress_bar w \<Longrightarrow> i_counter w' = i_counter w \<Longrightarrow>
   status_text w' = status_text w \<Longrightarrow> written w' = written w \<Longrightarrow>
   progress_inv fc w' = progress_inv fc w"
  by (simp add: progress_inv_def)

lemma report_progress_inv:
  assumes "progress_inv fc w"
  shows "progress_inv fc (report_progress fc (w\<lparr>written := written w @ [g]\<rparr>))"
proof (cases "0 < fc")
  case False
  with assms show ?thesis
    by (simp add: progress_inv_def report_progress_def Let_def)
next
  case True
  let ?q = "min (of_int (i_counter w + 1) / of_int fc) (1::rat)"
  have step: "(of_int (i_counter w) :: rat) / of_int fc \<le> of_int (i_counter w + 1) / of_int fc"
    using True by (simp add: divide_right_mono)
  have q0: "0 \<le> ?q" using True assms by (simp add: progress_inv_def)
  have all: "list_all (\<lambda>p. 0 \<le> p \<and> p \<le> 1 \<and> p \<le> of_int (i_counter w) / of_int fc) (progress_bar w)"
    using assms True by (simp add: progress_inv_def)
  then have below: "\<forall>p\<in>set (progress_bar w). p \<le> ?q"
    using step by (auto simp: list_all_iff)
  have all': "list_all (\<lambda>p. 0 \<le> p \<and> p \<le> 1 \<and> p \<le> of_int (i_counter w + 1) / of_int fc) (progress_bar w)"
    using all step by (auto simp: list_all_iff)
  have srt: "sorted (progress_bar w @ [?q])"
    using assms below by (simp add: progress_inv_def sorted_append)
  have eq: "report_progress fc (w\<lparr>written := written w @ [g]\<rparr>) =
      w\<lparr>written := written w @ [g], i_counter := i_counter w + 1,
        progress_bar := progress_bar w @ [?q],
        status_text := status_text w @ [(i_counter w + 1, fc)]\<rparr>"
    using True by (simp add: report_progress_def py_truediv_def Let_def)
  show ?thesis
    unfolding eq using True assms srt q0 all'
    by (simp add: progress_inv_def)
qed

lemma count_boxes_progress_inv: "progress_inv fc (count_boxes bs w) = progress_inv fc w"
  by (rule progress_inv_cong) simp_all

lemma body_progress_inv:
  assumes "progress_inv fc w"
  shows "progress_inv fc (body e m fc wd ht f w)"
proof (cases "m f")
  case (Inl msg)
  have "progress_inv fc (raise (LibError msg) w) = progress_inv fc w"
    by (rule progress_inv_cong) (simp_all add: raise_def)
  with assms Inl show ?thesis by (simp add: body_def)
next
  case (Inr res)
  have c: "progress_inv fc (count_boxes (boxes res) w)"
    using assms by (simp add: count_boxes_progress_inv)
  show ?thesis
  proof (cases "normalise e wd ht f (plot res)")
    case (Inl x)
    have "progress_inv fc (raise x (count_boxes (boxes res) w)) = progress_inv fc (count_boxes (boxes res) w)"
      by (rule progress_inv_cong) (simp_all add: raise_def)
    with c Inl Inr show ?thesis by (simp add: body_def Let_def)
  next
    case (Inr a)
    from report_progress_inv [OF c, of "cvtColor_RGB2BGR a"] Inr \<open>m f = Inr res\<close>
    show ?thesis by (simp add: body_def Let_def)
  qed
qed

lemma loop_progress_inv:
  "progress_inv fc w \<Longrightarrow> progress_inv fc (loop e m fc wd ht fs w)"
  by (induction fs arbitrary: w) (simp_all add: Let_def body_progress_inv)

text \<open>
  C4, as the script has it. The values given to the progress bar never decrease and lie
  between 0 and 1, and \<open>i / frame_count\<close> never divides by zero. When the frame count is
  0 or negative the loop reports nothing at all: the bar keeps its initial 0 and no status
  text is ever set. When it is positive there is one status text per frame written.
\<close>

theorem progress_reports:
  "sorted (progress_bar (run e)) \<and>
   list_all (\<lambda>p. 0 \<le> p \<and> p \<le> 1) (progress_bar (run e)) \<and>
   outcome (run e) \<noteq> Raised ZeroDivisionError \<and>
   (frame_count_of e \<le> 0 \<longrightarrow>
      status_text (run e) = [] \<and> (progress_bar (run e) = [] \<or> progress_bar (run e) = [0])) \<and>
   (0 < frame_count_of e \<longrightarrow> length (status_text (run e)) = length (written (run e)))"
proof (cases "YOLO e MODEL_PATH")
  case (Inl cause)
  then show ?thesis by (simp add: run_def st_stop_def st_error_def world0_def)
next
  case (Inr m)
  show ?thesis
  proof (cases "uploaded_file e")
    case None
    with Inr show ?thesis by (simp add: run_def st_stop_def st_info_def world0_def)
  next
    case (Some up)
    show ?thesis
    proof (cases "isOpened e")
      case False
      with Inr Some show ?thesis by (simp add: run_def st_stop_def st_error_def world0_def)
    next
      case True
      define w3 where "w3 = world0\<lparr>cap_created := True,
          writer := Some \<lparr>vw_path = out_path e, vw_fourcc = ''mp4v'',
                          vw_fps = fps_of e, vw_size = (width_of e, height_of e)\<rparr>,
          progress_bar := [0]\<rparr>"
      define w4 where "w4 = loop e m (frame_count_of e) (width_of e) (height_of e) (stream e) w3"
      have r: "run e = (if outcome w4 = Running then finish e up w4 else w4)"
        using Inr Some True by (simp add: run_def Let_def w4_def w3_def world0_def)
      have o: "outcome w3 = Running" by (simp add: w3_def world0_def)
      have "progress_inv (frame_count_of e) w3"
        by (simp add: progress_inv_def w3_def world0_def)
      then have inv: "progress_inv (frame_count_of e) w4"
        unfolding w4_def by (rule loop_progress_inv)
      have inv': "progress_inv (frame_count_of e) (finish e up w4)"
        using inv progress_inv_cong [of "finish e up w4" w4] by simp
      have k: "progress_inv (frame_count_of e) (run e)"
        using r inv inv' by (simp split: if_splits)
      have nz: "outcome (run e) \<noteq> Raised ZeroDivisionError"
        using run_outcome [of e] by auto
      have la: "list_all (\<lambda>p. 0 \<le> p \<and> p \<le> 1) (progress_bar (run e))"
        using k by (auto simp: progress_inv_def list_all_iff)
      show ?thesis using k nz la by (auto simp: progress_inv_def)
    qed
  qed
qed

theorem progress_reports_witness:
  "frame_count_of env_no_count \<le> 0 \<and> status_text (run env_no_count) = [] \<and>
   progress_bar (run env_no_count) = [0] \<and>
   0 < frame_count_of demo_env \<and> progress_bar (run demo_env) = [0, 1 / 2, 1] \<and>
   length (status_text (run demo_env)) = length (written (run demo_env))"
proof -
  have a: "frame_count_of env_no_count \<le> 0" "progress_bar (run env_no_count) = [0]"
    using run_env_no_count by simp_all
  have b: "0 < frame_count_of demo_env"
    by (simp add: frame_count_of_def demo_env_def py_or_def py_int_def)
  have c: "progress_bar (run demo_env) = [0, 1 / 2, 1]"
    by (simp add: run_demo_env)
  from progress_reports [of env_no_count] progress_reports [of demo_env] a b c
  show ?thesis by simp
qed

text \<open>
  C4 as stated fails: with a reported frame count of 0, two frames are read and written
  and no status text (no frame count string) is shown.
\<close>

theorem no_status_text_without_frame_count:
  "frame_count_of env_no_count = 0 \<and> outcome (run env_no_count) = Completed \<and>
   length (written (run env_no_count)) = 2 \<and> status_text (run env_no_count) = [] \<and>
   progress_bar (run env_no_count) = [0]"
  using run_env_no_count by simp

section \<open>C5: a model that cannot be loaded\<close>

text \<open>
  C5. When loading the model raises, the script shows one error that contains the model
  path and the text of the exception, and stops: the capture is never created, no writer
  is opened, and no frame is read, counted or written.
\<close>

theorem model_load_failure:
  assumes "YOLO e MODEL_PATH = Inl cause"
  shows "outcome (run e) = Stopped \<and>
         messages (run e) = [Error (load_failed_message cause)] \<and>
         (\<exists>pre mid. load_failed_message cause = pre @ MODEL_PATH @ mid @ cause) \<and>
         \<not> cap_created (run e) \<and> writer (run e) = None \<and>
         written (run e) = [] \<and> detections (run e) = [] \<and> i_counter (run e) = 0"
proof -
  have "load_failed_message cause =
      (cross_mark @ ''Failed to load model at '' @ [CHR 0x27]) @ MODEL_PATH @ ([CHR 0x27] @ '': '') @ cause"
    by (simp add: load_failed_message_def)
  then have "\<exists>pre mid. load_failed_message cause = pre @ MODEL_PATH @ mid @ cause"
    by blast
  then show ?thesis
    using assms by (simp add: run_def st_stop_def st_error_def world0_def)
qed

theorem model_load_failure_witness:
  "YOLO (demo_env\<lparr>YOLO := \<lambda>p. Inl ''no such file''\<rparr>) MODEL_PATH = Inl ''no such file'' \<and>
   outcome (run (demo_env\<lparr>YOLO := \<lambda>p. Inl ''no such file''\<rparr>)) = Stopped \<and>
   messages (run (demo_env\<lparr>YOLO := \<lambda>p. Inl ''no such file''\<rparr>)) =
     [Error (load_failed_message ''no such file'')] \<and>
   \<not> cap_created (run (demo_env\<lparr>YOLO := \<lambda>p. Inl ''no such file''\<rparr>)) \<and>
   written (run (demo_env\<lparr>YOLO := \<lambda>p. Inl ''no such file''\<rparr>)) = []"
  using model_load_failure [of "demo_env\<lparr>YOLO := \<lambda>p. Inl ''no such file''\<rparr>" "''no such file''"]
  by simp

section \<open>C6: a video that cannot be opened\<close>

text \<open>
  C6. When the capture cannot be opened, the script shows the error that asks for a
  standard MP4 and stops at once: the writer is never opened, so no output file is
  created, nothing is written and no download is offered.
\<close>

theorem unreadable_video:
  assumes "YOLO e MODEL_PATH = Inr m" and "uploaded_file e = Some up" and "\<not> isOpened e"
  shows "outcome (run e) = Stopped \<and> messages (run e) = [Error open_failed_message] \<and>
         writer (run e) = None \<and> written (run e) = [] \<and> i_counter (run e) = 0 \<and>
         download_button (run e) = None"
  using assms by (simp add: run_def st_stop_def st_error_def world0_def)

theorem unreadable_video_witness:
  "YOLO (demo_env\<lparr>isOpened := False\<rparr>) MODEL_PATH = Inr plain_model \<and>
   uploaded_file (demo_env\<lparr>isOpened := False\<rparr>) = Some \<lparr>name = ''rally.mp4'', content = []\<rparr> \<and>
   \<not> isOpened (demo_env\<lparr>isOpened := False\<rparr>) \<and>
   outcome (run (demo_env\<lparr>isOpened := False\<rparr>)) = Stopped \<and>
   writer (run (demo_env\<lparr>isOpened := False\<rparr>)) = None \<and>
   download_button (run (demo_env\<lparr>isOpened := False\<rparr>)) = None"
  using unreadable_video [of "demo_env\<lparr>isOpened := False\<rparr>" plain_model
      "\<lparr>name = ''rally.mp4'', content = []\<rparr>"]
  by (simp add: demo_env_def)

section \<open>C7: what is done to a frame before it is written\<close>

text \<open>
  What lines 125-132 do to the frame they write: the frame handed to the writer is the
  channel swap of the normalised frame; it is \<open>uint8\<close> and has the capture's width and
  height; and, read in the writer's order, it has the colours that the normalised frame
  has when read as RGB. So the swap gives the writer its order for a frame that is RGB.
\<close>

lemma body_writes_normalised:
  assumes "m f = Inr res" and "normalise e wd ht f (plot res) = Inr n"
  shows "written (body e m fc wd ht f w) = written w @ [cvtColor_RGB2BGR n] \<and>
         dtype (cvtColor_RGB2BGR n) = UInt8 \<and>
         shape_wh (cvtColor_RGB2BGR n) = (wd, ht) \<and>
         colours BGR (cvtColor_RGB2BGR n) = colours RGB n"
proof -
  have w: "written (body e m fc wd ht f w) = written w @ [cvtColor_RGB2BGR n]"
    using assms by (simp add: body_def Let_def)
  obtain a where a: "normalise e wd ht f (Some a) = Inr n"
    using assms(2) normalise_none [of e wd ht f] by (cases "plot res") auto
  then have ok: "shape_wh a = (wd, ht) \<or> (0 < wd \<and> 0 < ht)" and n: "n = normalised e wd ht a"
    by (auto simp: normalise_some split: if_splits)
  have d: "dtype n = UInt8" unfolding n by (rule normalised_dtype)
  have s: "shape_wh n = (wd, ht)" unfolding n using ok by (rule normalised_shape)
  have c: "colours BGR (cvtColor_RGB2BGR n) = colours RGB n"
    by (simp add: colours_def cvtColor_RGB2BGR_def split_def o_def)
  from w d s c show ?thesis by (simp add: cvtColor_RGB2BGR_def shape_wh_def)
qed


section \<open>C8: the parameters of the writer\<close>

lemma py_int_of_int: "py_int (of_int n) = n"
  by (simp add: py_int_def)

lemma run_writer:
  assumes "YOLO e MODEL_PATH = Inr m" and "uploaded_file e = Some up" and "isOpened e"
  shows "writer (run e) = Some \<lparr>vw_path = out_path e, vw_fourcc = ''mp4v'',
            vw_fps = fps_of e, vw_size = (width_of e, height_of e)\<rparr>"
  using assms by (simp add: run_def Let_def world0_def)

text \<open>
  C8. The writer is opened with the mp4v code, the truncated width and height the capture
  reports, and the reported frame rate, except that a reported frame rate of zero is
  replaced by 25. A whole number is reported unchanged by the truncation.
\<close>

theorem writer_parameters:
  assumes "YOLO e MODEL_PATH = Inr m" and "uploaded_file e = Some up" and "isOpened e"
  shows "writer (run e) =
           Some \<lparr>vw_path = out_path e, vw_fourcc = ''mp4v'',
                 vw_fps = (if cap_get e CAP_PROP_FPS = 0 then 25 else cap_get e CAP_PROP_FPS),
                 vw_size = (py_int (cap_get e CAP_PROP_FRAME_WIDTH),
                            py_int (cap_get e CAP_PROP_FRAME_HEIGHT))\<rparr> \<and>
         py_int (of_int n) = n"
  using run_writer [OF assms]
  by (simp add: fps_of_def width_of_def height_of_def py_or_def py_int_of_int)

theorem writer_parameters_witness:
  "YOLO (demo_env\<lparr>cap_get := \<lambda>p. 0\<rparr>) MODEL_PATH = Inr plain_model \<and>
   uploaded_file (demo_env\<lparr>cap_get := \<lambda>p. 0\<rparr>) = Some \<lparr>name = ''rally.mp4'', content = []\<rparr> \<and>
   isOpened (demo_env\<lparr>cap_get := \<lambda>p. 0\<rparr>) \<and>
   writer (run (demo_env\<lparr>cap_get := \<lambda>p. 0\<rparr>)) =
     Some \<lparr>vw_path = ''/tmp/processed_0f.mp4'', vw_fourcc = ''mp4v'', vw_fps = 25,
           vw_size = (0, 0)\<rparr>"
  using writer_parameters [of "demo_env\<lparr>cap_get := \<lambda>p. 0\<rparr>" plain_model
      "\<lparr>name = ''rally.mp4'', content = []\<rparr>" 0]
  by (simp add: demo_env_def out_path_def py_int_def)

section \<open>C9: a detector that returns no picture\<close>

text \<open>
  C9, as the script has it. When the detector's picture is \<open>None\<close> the loop body does
  what it does for a detector that returns the input frame as its picture, and no run
  ends with an AttributeError. If the input frame has the capture's width and height, or
  these are both positive, the frame written is the channel swap of the normalised input
  frame (clipped, scaled and cast unless it is \<open>uint8\<close>, resized unless it has the
  capture's size; a \<open>uint8\<close> frame of the capture's size is left as it is), which is
  \<open>uint8\<close> and of the capture's size. Otherwise \<open>cv2.resize\<close> raises and no frame is
  written for the frame read.
\<close>

theorem missing_annotation_falls_back:
  assumes "m f = Inr res" and "plot res = None"
  shows "outcome (run e') \<noteq> Raised AttributeError \<and>
         body e m fc wd ht f w = body e (\<lambda>x. Inr (res\<lparr>plot := Some f\<rparr>)) fc wd ht f w \<and>
         (shape_wh f = (wd, ht) \<or> (0 < wd \<and> 0 < ht) \<longrightarrow>
            written (body e m fc wd ht f w) =
              written w @ [cvtColor_RGB2BGR (normalised e wd ht f)] \<and>
            outcome (body e m fc wd ht f w) = outcome w \<and>
            dtype (normalised e wd ht f) = UInt8 \<and>
            shape_wh (normalised e wd ht f) = (wd, ht)) \<and>
         (dtype f = UInt8 \<and> shape_wh f = (wd, ht) \<longrightarrow> normalised e wd ht f = f) \<and>
         (shape_wh f \<noteq> (wd, ht) \<and> (wd \<le> 0 \<or> ht \<le> 0) \<longrightarrow>
            written (body e m fc wd ht f w) = written w \<and>
            outcome (body e m fc wd ht f w) = Raised (LibError ''cv2.error''))"
proof -
  have nr: "outcome (run e') \<noteq> Raised AttributeError"
    using run_outcome [of e'] by auto
  have nn: "normalise e wd ht f (plot res) = normalise e wd ht f (Some f)"
    using assms(2) by (simp add: normalise_none)
  have eqb: "body e m fc wd ht f w = body e (\<lambda>x. Inr (res\<lparr>plot := Some f\<rparr>)) fc wd ht f w"
    using assms(1) nn by (simp add: body_def)
  have good: "shape_wh f = (wd, ht) \<or> (0 < wd \<and> 0 < ht) \<longrightarrow>
            written (body e m fc wd ht f w) =
              written w @ [cvtColor_RGB2BGR (normalised e wd ht f)] \<and>
            outcome (body e m fc wd ht f w) = outcome w \<and>
            dtype (normalised e wd ht f) = UInt8 \<and>
            shape_wh (normalised e wd ht f) = (wd, ht)"
  proof
    assume ok: "shape_wh f = (wd, ht) \<or> (0 < wd \<and> 0 < ht)"
    then have n: "normalise e wd ht f (plot res) = Inr (normalised e wd ht f)"
      unfolding nn by (simp add: normalise_some)
    have w: "written (body e m fc wd ht f w) =
              written w @ [cvtColor_RGB2BGR (normalised e wd ht f)]"
      "outcome (body e m fc wd ht f w) = outcome w"
      using assms(1) n by (simp_all add: body_def Let_def)
    from w normalised_dtype [of e wd ht f] normalised_shape [OF ok, of e]
    show "written (body e m fc wd ht f w) =
              written w @ [cvtColor_RGB2BGR (normalised e wd ht f)] \<and>
            outcome (body e m fc wd ht f w) = outcome w \<and>
            dtype (normalised e wd ht f) = UInt8 \<and>
            shape_wh (normalised e wd ht f) = (wd, ht)"
      by simp
  qed
  have bad: "shape_wh f \<noteq> (wd, ht) \<and> (wd \<le> 0 \<or> ht \<le> 0) \<longrightarrow>
            written (body e m fc wd ht f w) = written w \<and>
            outcome (body e m fc wd ht f w) = Raised (LibError ''cv2.error'')"
  proof
    assume no: "shape_wh f \<noteq> (wd, ht) \<and> (wd \<le> 0 \<or> ht \<le> 0)"
    then have n: "normalise e wd ht f (plot res) = Inl (LibError ''cv2.error'')"
      unfolding nn by (auto simp: normalise_some)
    show "written (body e m fc wd ht f w) = written w \<and>
            outcome (body e m fc wd ht f w) = Raised (LibError ''cv2.error'')"
      using assms(1) n by (simp add: body_def raise_def Let_def)
  qed
  have same: "dtype f = UInt8 \<and> shape_wh f = (wd, ht) \<longrightarrow> normalised e wd ht f = f"
    by (simp add: normalised_def Let_def)
  from nr eqb good bad same show ?thesis by simp
qed

theorem missing_annotation_falls_back_witness:
  "plain_model frame_a = Inr \<lparr>plot = None, boxes = [\<lparr>cls = 0\<rparr>, \<lparr>cls = 7\<rparr>]\<rparr> \<and>
   plain_model frame_float = Inr \<lparr>plot = None, boxes = [\<lparr>cls = 0\<rparr>, \<lparr>cls = 7\<rparr>]\<rparr> \<and>
   plot \<lparr>plot = None, boxes = [\<lparr>cls = 0\<rparr>, \<lparr>cls = 7\<rparr>]\<rparr> = None \<and>
   shape_wh frame_a \<noteq> (4, 2) \<and>
   written (body demo_env plain_model 2 4 2 frame_a world0) =
     [\<lparr>dtype = UInt8, rows = 2, cols = 4, pixels = replicate 8 (0, 0, 0)\<rparr>] \<and>
   shape_wh frame_float = (2, 1) \<and>
   written (body demo_env plain_model 2 2 1 frame_float world0) =
     [\<lparr>dtype = UInt8, rows = 1, cols = 2, pixels = [(255, 0, 127), (63, 0, 255)]\<rparr>] \<and>
   outcome (body demo_env plain_model 2 2 1 frame_float world0) = Running \<and>
   shape_wh frame_a \<noteq> (0, 0) \<and>
   written (body demo_env plain_model 2 0 0 frame_a world0) = [] \<and>
   outcome (body demo_env plain_model 2 0 0 frame_a world0) = Raised (LibError ''cv2.error'')"
proof -
  let ?res = "\<lparr>plot = None, boxes = [\<lparr>cls = 0\<rparr>, \<lparr>cls = 7\<rparr>]\<rparr>"
  have m: "plain_model frame_a = Inr ?res" "plain_model frame_float = Inr ?res"
    by (simp_all add: plain_model_def)
  have p: "plot ?res = None" by simp
  have s: "shape_wh frame_a = (2, 1)" "shape_wh frame_float = (2, 1)"
    by (simp_all add: shape_wh_def frame_a_def frame_float_def)
  have w0: "written world0 = []" "outcome world0 = Running" by (simp_all add: world0_def)
  have fl: "\<lfloor>255 / 2 :: rat\<rfloor> = 127" "\<lfloor>255 / 4 :: rat\<rfloor> = 63"
    by (simp_all add: floor_unique)
  have n1: "cvtColor_RGB2BGR (normalised demo_env 4 2 frame_a) =
      \<lparr>dtype = UInt8, rows = 2, cols = 4, pixels = replicate 8 (0, 0, 0)\<rparr>"
    by (simp add: normalised_def shape_wh_def frame_a_def demo_env_def cvtColor_RGB2BGR_def Let_def)
  have n2: "cvtColor_RGB2BGR (normalised demo_env 2 1 frame_float) =
      \<lparr>dtype = UInt8, rows = 1, cols = 2, pixels = [(255, 0, 127), (63, 0, 255)]\<rparr>"
    by (simp add: normalised_def shape_wh_def frame_float_def demo_env_def cvtColor_RGB2BGR_def
        clip_scale_def map_channels_def astype_uint8_def np_clip_def py_int_def Let_def fl)
  note t1 = missing_annotation_falls_back [where m = plain_model and f = frame_a and res = ?res
      and e = demo_env and e' = demo_env and fc = 2 and wd = 4 and ht = 2 and w = world0]
  note t2 = missing_annotation_falls_back [where m = plain_model and f = frame_float
      and res = ?res and e = demo_env and e' = demo_env and fc = 2 and wd = 2 and ht = 1
      and w = world0]
  note t3 = missing_annotation_falls_back [where m = plain_model and f = frame_a and res = ?res
      and e = demo_env and e' = demo_env and fc = 2 and wd = 0 and ht = 0 and w = world0]
  have a: "written (body demo_env plain_model 2 4 2 frame_a world0) =
      [\<lparr>dtype = UInt8, rows = 2, cols = 4, pixels = replicate 8 (0, 0, 0)\<rparr>]"
  proof -
    have "(0::int) < 4 \<and> (0::int) < 2" by simp
    with t1 m(1) p
    have "written (body demo_env plain_model 2 4 2 frame_a world0) =
        written world0 @ [cvtColor_RGB2BGR (normalised demo_env 4 2 frame_a)]"
      by blast
    with w0 n1 show ?thesis by simp
  qed
  have b: "written (body demo_env plain_model 2 2 1 frame_float world0) =
      [\<lparr>dtype = UInt8, rows = 1, cols = 2, pixels = [(255, 0, 127), (63, 0, 255)]\<rparr>]"
    "outcome (body demo_env plain_model 2 2 1 frame_float world0) = Running"
  proof -
    from t2 m(2) p s(2)
    have "written (body demo_env plain_model 2 2 1 frame_float world0) =
        written world0 @ [cvtColor_RGB2BGR (normalised demo_env 2 1 frame_float)] \<and>
      outcome (body demo_env plain_model 2 2 1 frame_float world0) = outcome world0"
      by blast
    with w0 n2 show "written (body demo_env plain_model 2 2 1 frame_float world0) =
      [\<lparr>dtype = UInt8, rows = 1, cols = 2, pixels = [(255, 0, 127), (63, 0, 255)]\<rparr>]"
      "outcome (body demo_env plain_model 2 2 1 frame_float world0) = Running"
      by simp_all
  qed
  have ne: "shape_wh frame_a \<noteq> (4, 2)" "shape_wh frame_a \<noteq> (0, 0)"
    using s(1) by simp_all
  have c: "written (body demo_env plain_model 2 0 0 frame_a world0) = []"
    "outcome (body demo_env plain_model 2 0 0 frame_a world0) = Raised (LibError ''cv2.error'')"
  proof -
    have "(0::int) \<le> 0" by simp
    with t3 m(1) p ne(2)
    have "written (body demo_env plain_model 2 0 0 frame_a world0) = written world0 \<and>
      outcome (body demo_env plain_model 2 0 0 frame_a world0) = Raised (LibError ''cv2.error'')"
      by blast
    with w0 show "written (body demo_env plain_model 2 0 0 frame_a world0) = []"
      "outcome (body demo_env plain_model 2 0 0 frame_a world0) = Raised (LibError ''cv2.error'')"
      by simp_all
  qed
  from m p s ne a b c show ?thesis by simp
qed

text \<open>
  C9 as stated fails: here the detector returns no picture and the capture reports a
  width and a height of 0; the first frame read has to be resized, \<open>cv2.resize\<close> raises,
  and no frame is written.
\<close>

theorem no_frame_written_for_empty_size:
  "YOLO (demo_env\<lparr>cap_get := \<lambda>p. 0\<rparr>) MODEL_PATH = Inr plain_model \<and>
   plot (projr (plain_model frame_a)) = None \<and>
   stream (demo_env\<lparr>cap_get := \<lambda>p. 0\<rparr>) = [frame_a, frame_b] \<and>
   written (run (demo_env\<lparr>cap_get := \<lambda>p. 0\<rparr>)) = [] \<and>
   outcome (run (demo_env\<lparr>cap_get := \<lambda>p. 0\<rparr>)) = Raised (LibError ''cv2.error'')"
  by (simp add: run_def demo_env_def Let_def plain_model_def body_def world0_def raise_def
      frame_count_of_def width_of_def height_of_def fps_of_def py_int_def py_or_def
      normalise_def cv2_resize_def frame_a_def)

section \<open>C10: the download button\<close>

text \<open>
  C10, as the script has it. A download is offered if and only if the run gets to the
  download section (lines 161-169 come after the loop: no \<open>st.stop()\<close> and no exception
  before) and the file at the output path exists and is not empty.
\<close>

theorem download_guard:
  "(download_button (run e) \<noteq> None) =
     (outcome (run e) = Completed \<and> (\<exists>bytes. out_file e = Some bytes \<and> 0 < length bytes))"
proof (cases "YOLO e MODEL_PATH")
  case (Inl cause)
  then show ?thesis by (simp add: run_def st_stop_def st_error_def world0_def)
next
  case (Inr m)
  show ?thesis
  proof (cases "uploaded_file e")
    case None
    with Inr show ?thesis by (simp add: run_def st_stop_def st_info_def world0_def)
  next
    case (Some up)
    show ?thesis
    proof (cases "isOpened e")
      case False
      with Inr Some show ?thesis by (simp add: run_def st_stop_def st_error_def world0_def)
    next
      case True
      define w3 where "w3 = world0\<lparr>cap_created := True,
          writer := Some \<lparr>vw_path = out_path e, vw_fourcc = ''mp4v'',
                          vw_fps = fps_of e, vw_size = (width_of e, height_of e)\<rparr>,
          progress_bar := [0]\<rparr>"
      define w4 where "w4 = loop e m (frame_count_of e) (width_of e) (height_of e) (stream e) w3"
      have r: "run e = (if outcome w4 = Running then finish e up w4 else w4)"
        using Inr Some True by (simp add: run_def Let_def w4_def w3_def world0_def)
      have "outcome w3 = Running" by (simp add: w3_def world0_def)
      then have nc: "outcome w4 \<noteq> Completed"
        unfolding w4_def using loop_outcome_not_special by blast
      have d: "download_button w4 = None"
        by (simp add: w4_def w3_def world0_def)
      have f: "(download_button (finish e up w4) \<noteq> None) =
                 (\<exists>bytes. out_file e = Some bytes \<and> 0 < length bytes)"
        using d by (simp add: finish_def Let_def split: option.splits)
      show ?thesis using nc r d f by simp
    qed
  qed
qed

text \<open>
  C10 as stated fails: in this run the detector raises on the first frame, so the run
  never gets to line 161; the file at the output path exists and is not empty, and no
  download is offered.
\<close>

theorem no_download_after_exception:
  "out_file (demo_env\<lparr>YOLO := \<lambda>p. Inr failing_model\<rparr>) = Some ''mp4'' \<and>
   0 < length ''mp4'' \<and>
   outcome (run (demo_env\<lparr>YOLO := \<lambda>p. Inr failing_model\<rparr>)) =
     Raised (LibError ''CUDA out of memory'') \<and>
   download_button (run (demo_env\<lparr>YOLO := \<lambda>p. Inr failing_model\<rparr>)) = None"
  by (simp add: run_def demo_env_def Let_def failing_model_def body_def world0_def raise_def)

end
